theory Spec2Isabelle
  imports Complex_Main "HOL-Library.Word"
begin

unbundle bit_operations_syntax

section \<open>The PEAK gateway codec of \<^verbatim>\<open>can_peak_gateway/__init__.py\<close>\<close>

text \<open>
  The module bridges python-can messages to the datagram format of an Ethernet-to-CAN
  gateway. The embedding follows the module top to bottom: the constants, the
  \<^verbatim>\<open>MessageHeader\<close> structure with its accessors, the \<^verbatim>\<open>SocketReader\<close>, and the two
  methods \<^verbatim>\<open>send\<close> and \<^verbatim>\<open>_recv_internal\<close> of \<^verbatim>\<open>BusPeakGateway\<close>.
\<close>

subsection \<open>Constants\<close>

type_synonym byte = "8 word"

text \<open>\<^verbatim>\<open>class MessageType(IntEnum)\<close>: the members and their integer values.\<close>

datatype MessageType = CAN_FRAME | CAN_FRAME_CRC | CAN_FD_FRAME | CAN_FD_FRAME_CRC

fun MessageType_value :: "MessageType \<Rightarrow> 16 word" where
  "MessageType_value CAN_FRAME = 0x80"
| "MessageType_value CAN_FRAME_CRC = 0x81"
| "MessageType_value CAN_FD_FRAME = 0x90"
| "MessageType_value CAN_FD_FRAME_CRC = 0x91"

definition FLAG_REMOTE_REQUEST :: "16 word" where
  "FLAG_REMOTE_REQUEST = 0x01"

definition FLAG_EXTENDED_IDENTIFIER :: "16 word" where
  "FLAG_EXTENDED_IDENTIFIER = 0x02"

definition FLAG_EXTENDED_DATA_LENGTH :: "16 word" where
  "FLAG_EXTENDED_DATA_LENGTH = 0x10"

definition FLAG_BITRATE_SWITCH :: "16 word" where
  "FLAG_BITRATE_SWITCH = 0x30"

definition FLAG_ERROR_STATE :: "16 word" where
  "FLAG_ERROR_STATE = 0x40"

definition MASK_CAN_ID :: "32 word" where
  "MASK_CAN_ID = push_bit 28 1 - 1"

definition MASK_CAN_ID_REMOTE_REQUEST :: "32 word" where
  "MASK_CAN_ID_REMOTE_REQUEST = push_bit 30 1"

definition MASK_CAN_ID_EXTENDED_FRAME :: "32 word" where
  "MASK_CAN_ID_EXTENDED_FRAME = push_bit 31 1"

definition FETCH_SIZE_STANDARD_FRAME :: nat where
  "FETCH_SIZE_STANDARD_FRAME = 8"

definition FETCH_SIZE_OPTIONAL_CRC :: nat where
  "FETCH_SIZE_OPTIONAL_CRC = 4"

subsection \<open>Outcomes of a call\<close>

text \<open>
  A Python call returns a value, raises, or (a socket receive with no timeout and no
  datagram) never returns. \<^verbatim>\<open>TimeoutError\<close> and \<^verbatim>\<open>BlockingIOError\<close> come from a receive
  that finds no datagram, \<^verbatim>\<open>ValueError\<close> from \<^verbatim>\<open>settimeout\<close> with a negative timeout and
  from \<^verbatim>\<open>from_buffer_copy\<close> on a buffer shorter than the structure. \<^verbatim>\<open>BlockingIOError\<close> is
  not a \<^verbatim>\<open>TimeoutError\<close>.
\<close>

datatype exn = TimeoutError | ValueError | BlockingIOError

datatype 'a outcome = Return 'a | Raise exn | Block

subsection \<open>\<^verbatim>\<open>MessageHeader\<close>: a packed big-endian structure\<close>

record MessageHeader =
  packet_size :: "16 word"
  frame_kind :: "16 word"
  unused_tag :: "64 word"
  timestamp_low :: "32 word"
  timestamp_high :: "32 word"
  channel :: "8 word"
  frame_size :: "8 word"
  frame_flags :: "16 word"
  frame_id_raw :: "32 word"

text \<open>
  \<^verbatim>\<open>sizeof(MessageHeader)\<close>: with \<^verbatim>\<open>_pack_ = 1\<close> the size is the sum of the field widths,
  in the order of \<^verbatim>\<open>_fields_\<close>.
\<close>

definition sizeof_MessageHeader :: nat where
  "sizeof_MessageHeader = 2 + 2 + 8 + 4 + 4 + 1 + 1 + 2 + 4"

text \<open>Big-endian field encoding: the \<open>n\<close> low bytes of a word, most significant first.\<close>

fun be_bytes :: "nat \<Rightarrow> 'a::len word \<Rightarrow> byte list" where
  "be_bytes 0 w = []"
| "be_bytes (Suc n) w = ucast (drop_bit (8 * n) w) # be_bytes n w"

fun be_word :: "'a::len word \<Rightarrow> byte list \<Rightarrow> 'a word" where
  "be_word acc [] = acc"
| "be_word acc (b # bs) = be_word (push_bit 8 acc OR ucast b) bs"

text \<open>\<^verbatim>\<open>bytearray(header)\<close>: the fields in declaration order, without padding.\<close>

definition header_bytes :: "MessageHeader \<Rightarrow> byte list" where
  "header_bytes header =
     be_bytes 2 (packet_size header) @
     be_bytes 2 (frame_kind header) @
     be_bytes 8 (unused_tag header) @
     be_bytes 4 (timestamp_low header) @
     be_bytes 4 (timestamp_high header) @
     be_bytes 1 (channel header) @
     be_bytes 1 (frame_size header) @
     be_bytes 2 (frame_flags header) @
     be_bytes 4 (frame_id_raw header)"

text \<open>
  \<^verbatim>\<open>MessageHeader.from_buffer_copy(b)\<close>: raises \<^verbatim>\<open>ValueError\<close> when \<open>b\<close> is shorter than the
  structure, and reads the fields from the first \<^verbatim>\<open>sizeof(MessageHeader)\<close> bytes otherwise.
\<close>

definition from_buffer_copy :: "byte list \<Rightarrow> MessageHeader outcome" where
  "from_buffer_copy b =
     (if length b < sizeof_MessageHeader then Raise ValueError
      else Return
        \<lparr>packet_size = be_word 0 (take 2 b),
         frame_kind = be_word 0 (take 2 (drop 2 b)),
         unused_tag = be_word 0 (take 8 (drop 4 b)),
         timestamp_low = be_word 0 (take 4 (drop 12 b)),
         timestamp_high = be_word 0 (take 4 (drop 16 b)),
         channel = be_word 0 (take 1 (drop 20 b)),
         frame_size = be_word 0 (take 1 (drop 21 b)),
         frame_flags = be_word 0 (take 2 (drop 22 b)),
         frame_id_raw = be_word 0 (take 4 (drop 24 b))\<rparr>)"

text \<open>The accessors (\<^verbatim>\<open>@property\<close>); \<^verbatim>\<open>bool(x & m)\<close> is \<open>x AND m \<noteq> 0\<close>.\<close>

definition flag_remote_request_frame :: "MessageHeader \<Rightarrow> bool" where
  "flag_remote_request_frame header \<longleftrightarrow> frame_flags header AND FLAG_REMOTE_REQUEST \<noteq> 0"

definition flag_extended_data_length :: "MessageHeader \<Rightarrow> bool" where
  "flag_extended_data_length header \<longleftrightarrow> frame_flags header AND FLAG_BITRATE_SWITCH \<noteq> 0"

definition flag_activated_bitrate_switch :: "MessageHeader \<Rightarrow> bool" where
  "flag_activated_bitrate_switch header \<longleftrightarrow> frame_flags header AND FLAG_BITRATE_SWITCH \<noteq> 0"

definition flag_error_state_indicator :: "MessageHeader \<Rightarrow> bool" where
  "flag_error_state_indicator header \<longleftrightarrow> frame_flags header AND FLAG_ERROR_STATE \<noteq> 0"

definition frame_extended_id :: "MessageHeader \<Rightarrow> bool" where
  "frame_extended_id header \<longleftrightarrow> frame_id_raw header AND MASK_CAN_ID_EXTENDED_FRAME \<noteq> 0"

definition frame_id :: "MessageHeader \<Rightarrow> int" where
  "frame_id header = uint (frame_id_raw header AND MASK_CAN_ID)"

subsection \<open>\<^verbatim>\<open>can.Message\<close>: the fields the module reads or writes\<close>

record Message =
  timestamp :: real
  arbitration_id :: int
  is_extended_id :: bool
  is_remote_frame :: bool
  is_error_frame :: bool
  dlc :: int
  data :: "byte list"
  is_fd :: bool
  bitrate_switch :: bool

subsection \<open>\<^verbatim>\<open>SocketReader\<close>\<close>

text \<open>
  The receive socket is the queue of the datagrams that are there for the receive that
  asks for them: waiting already, or arriving before its timeout runs out.

  \<^verbatim>\<open>settimeout(timeout)\<close> accepts \<^verbatim>\<open>None\<close> (blocking), zero (non-blocking) and positive
  numbers, and raises \<^verbatim>\<open>ValueError\<close> for a negative one. Errors of the network stack and
  timeouts too large for the timer of the platform are outside this model.
\<close>

type_synonym socket = "byte list list"

definition settimeout :: "real option \<Rightarrow> unit outcome" where
  "settimeout timeout =
     (case timeout of
        None \<Rightarrow> Return ()
      | Some t \<Rightarrow> if t < 0 then Raise ValueError else Return ())"

text \<open>
  \<^verbatim>\<open>recv(bufsize)\<close> on a datagram socket whose timeout is \<open>timeout\<close> returns the next datagram
  cut to \<open>bufsize\<close> bytes and drops the rest of it. With no datagram it raises
  \<^verbatim>\<open>TimeoutError\<close> when the timeout is positive and \<^verbatim>\<open>BlockingIOError\<close> when it is zero, and
  never returns when the timeout is \<^verbatim>\<open>None\<close>.
\<close>

fun recv :: "nat \<Rightarrow> real option \<Rightarrow> socket \<Rightarrow> byte list outcome \<times> socket" where
  "recv bufsize timeout (d # ds) = (Return (take bufsize d), ds)"
| "recv bufsize (Some t) [] =
     (if 0 < t then Raise TimeoutError else Raise BlockingIOError, [])"
| "recv bufsize None [] = (Block, [])"

record SocketReader =
  socket_of :: socket
  buffer :: "byte list"

definition read :: "nat \<Rightarrow> real option \<Rightarrow> SocketReader \<Rightarrow> byte list outcome \<times> SocketReader" where
  "read sz timeout self =
     (if length (buffer self) < sz then
        (case settimeout timeout of
           Raise e \<Rightarrow> (Raise e, self)
         | Block \<Rightarrow> (Block, self)
         | Return u \<Rightarrow>
            (case recv 1024 timeout (socket_of self) of
               (Return received, sock) \<Rightarrow>
                 (let buf = buffer self @ received
                  in (Return (take sz buf), \<lparr>socket_of = sock, buffer = drop sz buf\<rparr>))
             | (Raise e, sock) \<Rightarrow> (Raise e, self\<lparr>socket_of := sock\<rparr>)
             | (Block, sock) \<Rightarrow> (Block, self\<lparr>socket_of := sock\<rparr>)))
      else (Return (take sz (buffer self)), self\<lparr>buffer := drop sz (buffer self)\<rparr>))"

subsection \<open>\<^verbatim>\<open>BusPeakGateway\<close>\<close>

text \<open>
  The bus owns the send socket (modelled by the datagrams written to it), the reader over
  the receive socket, and the warnings it has logged. A warning
  \<^verbatim>\<open>unknown frame type received: {hex(frame)}\<close> is recorded by the frame kind it reports.
\<close>

datatype log_entry = Warning_unknown_frame_type "16 word"

record BusPeakGateway =
  send_socket :: "byte list list"
  recv_buffer :: SocketReader
  logged :: "log_entry list"

text \<open>
  \<^verbatim>\<open>send\<close>, first half: the header after the constructor call and the four conditional
  updates. Assigning a Python integer to a ctypes field keeps its low bits
  (\<open>word_of_int\<close>); fields not named in the constructor call start at zero.
\<close>

definition send_header :: "Message \<Rightarrow> MessageHeader" where
  "send_header msg =
     (let header = \<lparr>packet_size = word_of_int (int sizeof_MessageHeader),
                     frame_kind = 0,
                     unused_tag = 0,
                     timestamp_low = 0,
                     timestamp_high = 0,
                     channel = 0,
                     frame_size = word_of_int (dlc msg),
                     frame_flags = 0,
                     frame_id_raw = word_of_int (arbitration_id msg)\<rparr>;
          header =
            (if is_fd msg then
               header\<lparr>packet_size := packet_size header + word_of_int (dlc msg),
                      frame_kind := MessageType_value CAN_FD_FRAME\<rparr>
             else
               (let header = header\<lparr>packet_size := packet_size header
                                        + word_of_int (int FETCH_SIZE_STANDARD_FRAME),
                                      frame_kind := MessageType_value CAN_FRAME\<rparr>
                in if is_remote_frame msg then
                     header\<lparr>frame_flags := frame_flags header OR FLAG_REMOTE_REQUEST,
                            frame_id_raw := frame_id_raw header OR MASK_CAN_ID_REMOTE_REQUEST\<rparr>
                   else header));
          header =
            (if is_extended_id msg
             then header\<lparr>frame_flags := frame_flags header OR FLAG_EXTENDED_IDENTIFIER\<rparr>
             else header);
          header =
            (if is_error_frame msg
             then header\<lparr>frame_flags := frame_flags header OR FLAG_ERROR_STATE\<rparr>
             else header);
          header =
            (if bitrate_switch msg
             then header\<lparr>frame_flags := frame_flags header OR FLAG_BITRATE_SWITCH\<rparr>
             else header)
      in header)"

text \<open>
  \<^verbatim>\<open>send\<close>, second half: the payload appended to the header bytes. The slice assignment
  \<^verbatim>\<open>data[: len(msg.data)] = msg.data\<close> on eight zero bytes replaces the first
  \<open>min (len msg.data) 8\<close> of them by the whole of \<^verbatim>\<open>msg.data\<close>.
\<close>

definition send_payload :: "Message \<Rightarrow> byte list" where
  "send_payload msg =
     (if is_fd msg then data msg
      else data msg @ drop (length (data msg)) (replicate FETCH_SIZE_STANDARD_FRAME 0))"

definition send_frame :: "Message \<Rightarrow> byte list" where
  "send_frame msg = header_bytes (send_header msg) @ send_payload msg"

definition send :: "Message \<Rightarrow> real option \<Rightarrow> BusPeakGateway \<Rightarrow> BusPeakGateway" where
  "send msg timeout self = self\<lparr>send_socket := send_socket self @ [send_frame msg]\<rparr>"

text \<open>
  \<^verbatim>\<open>_recv_internal\<close>. \<open>fetch_crc\<close> is the membership test in the one-element set
  \<^verbatim>\<open>{MessageType.CAN_FRAME_CRC | MessageType.CAN_FD_FRAME_CRC}\<close>, whose element is the
  bitwise or of the two values.
\<close>

definition fetch_crc :: "MessageHeader \<Rightarrow> bool" where
  "fetch_crc header \<longleftrightarrow>
     frame_kind header \<in> {MessageType_value CAN_FRAME_CRC OR MessageType_value CAN_FD_FRAME_CRC}"

text \<open>
  The \<^verbatim>\<open>match\<close> statement: the message with the flags of the matched case and the
  payload size to fetch, or the unknown frame kind of the catch-all case.
\<close>

definition match_frame_kind :: "MessageHeader \<Rightarrow> Message \<Rightarrow> 16 word + Message \<times> nat" where
  "match_frame_kind header message =
     (if frame_kind header = MessageType_value CAN_FRAME
         \<or> frame_kind header = MessageType_value CAN_FRAME_CRC then
        Inr (message\<lparr>is_remote_frame := flag_remote_request_frame header\<rparr>,
             FETCH_SIZE_STANDARD_FRAME)
      else if frame_kind header = MessageType_value CAN_FD_FRAME
         \<or> frame_kind header = MessageType_value CAN_FD_FRAME_CRC then
        Inr (message\<lparr>is_fd := True,
                      is_error_frame := flag_error_state_indicator header,
                      bitrate_switch := flag_activated_bitrate_switch header\<rparr>,
             unat (frame_size header))
      else Inl (frame_kind header))"

text \<open>
  The last five assignments of \<^verbatim>\<open>_recv_internal\<close>; \<open>now\<close> is the value of
  \<^verbatim>\<open>time.time()\<close>.
\<close>

definition fill_message :: "real \<Rightarrow> MessageHeader \<Rightarrow> byte list \<Rightarrow> Message \<Rightarrow> Message" where
  "fill_message now header payload_data message =
     message\<lparr>timestamp := now,
             arbitration_id := frame_id header,
             is_extended_id := frame_extended_id header,
             dlc := uint (frame_size header),
             data := take (unat (frame_size header)) payload_data\<rparr>"

text \<open>
  The whole method. \<open>message\<close> is the fresh \<^verbatim>\<open>Message()\<close> of python-can, whose defaults are
  not part of this module. Only the first read is inside the \<^verbatim>\<open>try\<close>, and the handler
  catches \<^verbatim>\<open>TimeoutError\<close> alone.
\<close>

definition recv_internal ::
  "Message \<Rightarrow> real \<Rightarrow> real option \<Rightarrow> BusPeakGateway
     \<Rightarrow> (Message option \<times> bool) outcome \<times> BusPeakGateway" where
  "recv_internal message now timeout self =
     (case read sizeof_MessageHeader timeout (recv_buffer self) of
        (Raise TimeoutError, rb) \<Rightarrow> (Return (None, False), self\<lparr>recv_buffer := rb\<rparr>)
      | (Raise ValueError, rb) \<Rightarrow> (Raise ValueError, self\<lparr>recv_buffer := rb\<rparr>)
      | (Raise BlockingIOError, rb) \<Rightarrow> (Raise BlockingIOError, self\<lparr>recv_buffer := rb\<rparr>)
      | (Block, rb) \<Rightarrow> (Block, self\<lparr>recv_buffer := rb\<rparr>)
      | (Return header_data, rb) \<Rightarrow>
         (case from_buffer_copy header_data of
            Raise TimeoutError \<Rightarrow> (Return (None, False), self\<lparr>recv_buffer := rb\<rparr>)
          | Raise ValueError \<Rightarrow> (Raise ValueError, self\<lparr>recv_buffer := rb\<rparr>)
          | Raise BlockingIOError \<Rightarrow> (Raise BlockingIOError, self\<lparr>recv_buffer := rb\<rparr>)
          | Block \<Rightarrow> (Block, self\<lparr>recv_buffer := rb\<rparr>)
          | Return header \<Rightarrow>
             (case match_frame_kind header message of
                Inl frame \<Rightarrow>
                  (Return (None, False),
                   self\<lparr>recv_buffer := rb,
                        logged := logged self @ [Warning_unknown_frame_type frame]\<rparr>)
              | Inr (message, fetch_size) \<Rightarrow>
                 (case read fetch_size timeout rb of
                    (Raise e, rb) \<Rightarrow> (Raise e, self\<lparr>recv_buffer := rb\<rparr>)
                  | (Block, rb) \<Rightarrow> (Block, self\<lparr>recv_buffer := rb\<rparr>)
                  | (Return payload_data, rb) \<Rightarrow>
                     (if fetch_crc header then
                        (case read FETCH_SIZE_OPTIONAL_CRC timeout rb of
                           (Raise e, rb) \<Rightarrow> (Raise e, self\<lparr>recv_buffer := rb\<rparr>)
                         | (Block, rb) \<Rightarrow> (Block, self\<lparr>recv_buffer := rb\<rparr>)
                         | (Return crc_data, rb) \<Rightarrow>
                             (Return (Some (fill_message now header payload_data message), False),
                              self\<lparr>recv_buffer := rb\<rparr>))
                      else
                        (Return (Some (fill_message now header payload_data message), False),
                         self\<lparr>recv_buffer := rb\<rparr>))))))"

subsection \<open>Concrete frames and datagrams\<close>

text \<open>
  The inputs at which the codec is evaluated below. \<open>Message_new\<close> stands for python-can's
  \<^verbatim>\<open>Message()\<close> (extended identifier by default, everything else zero, empty or false);
  the general theorems take the fresh message as a variable instead.
\<close>

definition Message_new :: Message where
  "Message_new =
     \<lparr>timestamp = 0, arbitration_id = 0, is_extended_id = True, is_remote_frame = False,
      is_error_frame = False, dlc = 0, data = [], is_fd = False, bitrate_switch = False\<rparr>"

text \<open>A bus with an empty read buffer whose receive socket will deliver \<open>ds\<close>.\<close>

definition bus_receiving :: "byte list list \<Rightarrow> BusPeakGateway" where
  "bus_receiving ds =
     \<lparr>send_socket = [], recv_buffer = \<lparr>socket_of = ds, buffer = []\<rparr>, logged = []\<rparr>"

text \<open>Scenario A: identifier \<open>0x45\<close>, five data bytes, classic.\<close>

definition scenario_A :: Message where
  "scenario_A =
     Message_new\<lparr>arbitration_id := 0x45, is_extended_id := False, dlc := 5,
                  data := [0x00, 0x01, 0x11, 0x01, 0x22]\<rparr>"

text \<open>Scenario C: the largest 29-bit identifier, extended, remote, classic.\<close>

definition scenario_C :: Message where
  "scenario_C =
     Message_new\<lparr>arbitration_id := 0x1FFFFFFF, is_extended_id := True,
                  is_remote_frame := True\<rparr>"

text \<open>A classic data frame with a 29-bit extended identifier and two data bytes.\<close>

definition extended_frame :: Message where
  "extended_frame =
     Message_new\<lparr>arbitration_id := 0x1ABCDEF0, is_extended_id := True, dlc := 2,
                  data := [0xDE, 0xAD]\<rparr>"

text \<open>An FD frame with the bitrate switch and no other flag.\<close>

definition brs_frame :: Message where
  "brs_frame =
     Message_new\<lparr>arbitration_id := 0x69, is_extended_id := False, dlc := 2,
                  data := [0x01, 0x02], is_fd := True, bitrate_switch := True\<rparr>"

text \<open>A header as the gateway sends it: kind, payload size and identifier, no flags.\<close>

definition gateway_header :: "16 word \<Rightarrow> 8 word \<Rightarrow> 32 word \<Rightarrow> MessageHeader" where
  "gateway_header kind n ident =
     \<lparr>packet_size = 0, frame_kind = kind, unused_tag = 0, timestamp_low = 0,
      timestamp_high = 0, channel = 0, frame_size = n, frame_flags = 0, frame_id_raw = ident\<rparr>"

text \<open>A \<^verbatim>\<open>CAN_FRAME_CRC\<close> datagram: header, eight payload bytes, four trailer bytes.\<close>

definition crc_classic_datagram :: "byte list" where
  "crc_classic_datagram =
     header_bytes (gateway_header (MessageType_value CAN_FRAME_CRC) 8 0x45)
       @ [1, 2, 3, 4, 5, 6, 7, 8] @ [0xAA, 0xBB, 0xCC, 0xDD]"

text \<open>A \<^verbatim>\<open>CAN_FRAME\<close> datagram that ends after the header.\<close>

definition header_only_datagram :: "byte list" where
  "header_only_datagram = header_bytes (gateway_header (MessageType_value CAN_FRAME) 0 0x45)"

text \<open>A \<^verbatim>\<open>CAN_FD_FRAME_CRC\<close> datagram with its two payload bytes and no trailer.\<close>

definition crc_missing_datagram :: "byte list" where
  "crc_missing_datagram =
     header_bytes (gateway_header (MessageType_value CAN_FD_FRAME_CRC) 2 0x45) @ [1, 2]"

text \<open>A \<^verbatim>\<open>CAN_FRAME\<close> datagram whose header announces nine bytes.\<close>

definition dlc9_datagram :: "byte list" where
  "dlc9_datagram =
     header_bytes (gateway_header (MessageType_value CAN_FRAME) 9 0x45)
       @ [1, 2, 3, 4, 5, 6, 7, 8]"

text \<open>A datagram of frame kind \<open>0x00\<close>.\<close>

definition unknown_kind_datagram :: "byte list" where
  "unknown_kind_datagram = header_bytes (gateway_header 0x00 0 0x45) @ [0, 0, 0, 0, 0, 0, 0, 0]"

text \<open>A \<^verbatim>\<open>CAN_FD_FRAME\<close> datagram with three payload bytes.\<close>

definition fd_datagram :: "byte list" where
  "fd_datagram =
     header_bytes (gateway_header (MessageType_value CAN_FD_FRAME) 3 0x69) @ [1, 2, 3]"

section \<open>Properties\<close>

subsection \<open>The header on the wire\<close>

text \<open>
  The structure is written as 28 bytes and read back unchanged: every field is as wide as
  the bytes it is given.
\<close>

lemma length_be_bytes: "length (be_bytes n w) = n"
  by (induction n) simp_all

lemma be_word_be_bytes:
  fixes w acc :: "'a::len word"
  shows "be_word acc (be_bytes k w) = push_bit (8 * k) acc OR take_bit (8 * k) w"
proof (induction k arbitrary: acc)
  case 0
  show ?case by simp
next
  case (Suc k)
  have "push_bit (8 * k) (push_bit 8 acc OR ucast (ucast (drop_bit (8 * k) w) :: byte))
          OR take_bit (8 * k) w
        = push_bit (8 * Suc k) acc OR take_bit (8 * Suc k) w"
    by (rule bit_eqI) (auto simp: bit_simps add.commute)
  with Suc show ?case by simp
qed

lemma be_word_be_bytes_id:
  fixes w :: "'a::len word"
  assumes "LENGTH('a) \<le> 8 * k"
  shows "be_word 0 (be_bytes k w) = w"
  using assms by (simp add: be_word_be_bytes take_bit_word_eq_self)

lemma length_header_bytes: "length (header_bytes header) = sizeof_MessageHeader"
  by (simp add: header_bytes_def sizeof_MessageHeader_def length_be_bytes)

lemma from_buffer_copy_header_bytes: "from_buffer_copy (header_bytes header) = Return header"
  by (simp add: from_buffer_copy_def header_bytes_def sizeof_MessageHeader_def
      length_be_bytes be_word_be_bytes_id)

text \<open>A timeout that is \<^verbatim>\<open>None\<close> or not negative is accepted by the socket.\<close>

lemma settimeout_accepted:
  assumes "\<forall>t. timeout = Some t \<longrightarrow> 0 \<le> t"
  shows "settimeout timeout = Return ()"
  using assms by (cases timeout) (auto simp: settimeout_def)

subsection \<open>The CRC trailer\<close>

text \<open>
  Claim C1: in the decode path \<open>fetch_crc\<close> should be true exactly for the two CRC kinds
  \<open>0x81\<close> and \<open>0x91\<close>, and the four trailer bytes should be read exactly then. The code
  tests membership in the one-element set \<open>{0x81 OR 0x91}\<close>, which is \<open>{0x91}\<close>: \<open>fetch_crc\<close>
  holds for \<^verbatim>\<open>CAN_FD_FRAME_CRC\<close> only. For a \<^verbatim>\<open>CAN_FRAME_CRC\<close> header it is false, and decoding
  a \<^verbatim>\<open>CAN_FRAME_CRC\<close> datagram returns the frame and leaves the four trailer bytes at the
  front of the read buffer, where the next call takes them for the start of a header.
\<close>

theorem fetch_crc_only_fd_crc:
  "(fetch_crc header \<longleftrightarrow> frame_kind header = MessageType_value CAN_FD_FRAME_CRC)
   \<and> \<not> fetch_crc (gateway_header (MessageType_value CAN_FRAME_CRC) 8 0x45)
   \<and> recv_internal Message_new 7 (Some 1) (bus_receiving [crc_classic_datagram]) =
       (Return (Some (Message_new\<lparr>timestamp := 7, arbitration_id := 0x45,
                        is_extended_id := False, dlc := 8,
                        data := [1, 2, 3, 4, 5, 6, 7, 8]\<rparr>), False),
        \<lparr>send_socket = [],
         recv_buffer = \<lparr>socket_of = [], buffer = [0xAA, 0xBB, 0xCC, 0xDD]\<rparr>,
         logged = []\<rparr>)"
proof (intro conjI)
  show "fetch_crc header \<longleftrightarrow> frame_kind header = MessageType_value CAN_FD_FRAME_CRC"
    by (simp add: fetch_crc_def)
  show "\<not> fetch_crc (gateway_header (MessageType_value CAN_FRAME_CRC) 8 0x45)"
    by (simp add: fetch_crc_def gateway_header_def)
  show "recv_internal Message_new 7 (Some 1) (bus_receiving [crc_classic_datagram]) =
       (Return (Some (Message_new\<lparr>timestamp := 7, arbitration_id := 0x45,
                        is_extended_id := False, dlc := 8,
                        data := [1, 2, 3, 4, 5, 6, 7, 8]\<rparr>), False),
        \<lparr>send_socket = [],
         recv_buffer = \<lparr>socket_of = [], buffer = [0xAA, 0xBB, 0xCC, 0xDD]\<rparr>,
         logged = []\<rparr>)"
    by code_simp
qed

subsection \<open>Encoding followed by decoding\<close>

text \<open>
  Claim C2: decoding the datagram that \<^verbatim>\<open>send\<close> builds from a valid classic frame should
  give back the identifier, the length, the data and the two flags. At the classic frame
  with the extended 29-bit identifier \<open>0x1ABCDEF0\<close> and two data bytes the decoder returns
  the identifier \<open>0x0ABCDEF0\<close> (\<open>MASK_CAN_ID\<close> keeps 28 bits) and \<open>is_extended_id = False\<close>
  (the encoder sets flag bit 1 and never bit 31 of \<open>frame_id_raw\<close>, which is the bit the
  decoder reads); length, data and the remote flag do come back.
\<close>

theorem roundtrip_loses_extended_identifier:
  "fst (recv_internal Message_new 7 (Some 1) (bus_receiving [send_frame extended_frame])) =
     Return (Some (extended_frame\<lparr>timestamp := 7, arbitration_id := 0x0ABCDEF0,
                     is_extended_id := False\<rparr>), False)"
  by code_simp

text \<open>
  Claim C5 (scenario C): encoding the classic frame with identifier \<open>0x1FFFFFFF\<close>,
  extended and remote, should give \<open>frame_id_raw = 0x1FFFFFFF | (1<<30) | (1<<31)\<close> with flag
  bit 0 set, and decoding should recover the identifier and both flags. The encoder gives
  \<open>frame_id_raw = 0x5FFFFFFF\<close> (bit 30 set, bit 31 clear) and flags \<open>0x03\<close>; the decoder
  recovers the remote flag, but \<open>is_extended_id = False\<close> and the identifier \<open>0x0FFFFFFF\<close>.
\<close>

theorem scenario_C_encode_decode:
  "frame_id_raw (send_header scenario_C) = 0x5FFFFFFF
   \<and> frame_id_raw (send_header scenario_C) \<noteq> 0x1FFFFFFF OR push_bit 30 1 OR push_bit 31 1
   \<and> frame_flags (send_header scenario_C) = 0x03
   \<and> fst (recv_internal Message_new 7 (Some 1) (bus_receiving [send_frame scenario_C])) =
       Return (Some (scenario_C\<lparr>timestamp := 7, arbitration_id := 0x0FFFFFFF,
                       is_extended_id := False\<rparr>), False)"
  by code_simp

text \<open>
  What does come back. An identifier below \<open>2^28\<close> passes the mask unchanged, with or
  without the remote-request bit, and leaves bit 31 clear.
\<close>

lemma mask_can_id: "MASK_CAN_ID = mask 28"
  by (simp add: MASK_CAN_ID_def mask_eq_exp_minus_1)

lemma frame_id_of_int:
  assumes "0 \<le> k" and "k < 2 ^ 28"
  shows "uint ((word_of_int k :: 32 word) AND MASK_CAN_ID) = k"
    and "uint ((word_of_int k OR MASK_CAN_ID_REMOTE_REQUEST :: 32 word) AND MASK_CAN_ID) = k"
    and "(word_of_int k :: 32 word) AND MASK_CAN_ID_EXTENDED_FRAME = 0"
    and "(word_of_int k OR MASK_CAN_ID_REMOTE_REQUEST :: 32 word) AND MASK_CAN_ID_EXTENDED_FRAME = 0"
proof -
  have hi: "\<not> bit k n" if "28 \<le> n" for n
  proof -
    have "k div 2 ^ n = 0"
    proof -
      have "(2::int) ^ 28 \<le> 2 ^ n"
        using that by (intro power_increasing) simp_all
      with assms show ?thesis by simp
    qed
    then show ?thesis by (simp add: bit_iff_odd)
  qed
  have lo: "n < 28" if "bit k n" for n
    using hi [of n] that by (cases "28 \<le> n") simp_all
  have w: "(word_of_int k :: 32 word) AND MASK_CAN_ID = word_of_int k"
    unfolding mask_can_id
    by (rule bit_eqI) (auto simp: bit_simps dest: lo)
  have rr: "bit MASK_CAN_ID_REMOTE_REQUEST n \<longleftrightarrow> n = 30" for n
    by (simp only: MASK_CAN_ID_REMOTE_REQUEST_def bit_push_bit_iff bit_1_iff) auto
  have w': "(word_of_int k OR MASK_CAN_ID_REMOTE_REQUEST :: 32 word) AND MASK_CAN_ID = word_of_int k"
    unfolding mask_can_id
    by (rule bit_eqI) (auto simp: bit_simps rr dest: lo)
  have u: "uint (word_of_int k :: 32 word) = k"
    using assms by (simp add: uint_word_of_int take_bit_int_eq_self)
  show "uint ((word_of_int k :: 32 word) AND MASK_CAN_ID) = k"
    by (simp only: w u)
  show "uint ((word_of_int k OR MASK_CAN_ID_REMOTE_REQUEST :: 32 word) AND MASK_CAN_ID) = k"
    by (simp only: w' u)
  have ee: "bit MASK_CAN_ID_EXTENDED_FRAME n \<longleftrightarrow> n = 31" for n
    by (simp only: MASK_CAN_ID_EXTENDED_FRAME_def bit_push_bit_iff bit_1_iff) auto
  show "(word_of_int k :: 32 word) AND MASK_CAN_ID_EXTENDED_FRAME = 0"
    by (rule bit_eqI) (auto simp: bit_simps ee dest: lo)
  show "(word_of_int k OR MASK_CAN_ID_REMOTE_REQUEST :: 32 word) AND MASK_CAN_ID_EXTENDED_FRAME = 0"
    by (rule bit_eqI) (auto simp: bit_simps ee rr dest: lo)
qed

lemma classic_header:
  assumes "\<not> is_fd msg" and "\<not> is_extended_id msg"
  shows "frame_kind (send_header msg) = 0x80"
    and "frame_size (send_header msg) = word_of_int (dlc msg)"
    and "flag_remote_request_frame (send_header msg) = is_remote_frame msg"
    and "frame_id_raw (send_header msg) =
          (if is_remote_frame msg then word_of_int (arbitration_id msg) OR MASK_CAN_ID_REMOTE_REQUEST
           else word_of_int (arbitration_id msg))"
  using assms
  by (simp_all add: send_header_def Let_def flag_remote_request_frame_def FLAG_REMOTE_REQUEST_def
      FLAG_ERROR_STATE_def FLAG_BITRATE_SWITCH_def)

text \<open>
  For a classic frame without the extended flag, with an identifier below \<open>2^28\<close> and with
  \<open>dlc\<close> data bytes, \<open>dlc\<close> at most 8, decoding the datagram that \<^verbatim>\<open>send\<close> builds gives the
  identifier, the length, the data and the remote flag of the frame, whatever the fresh
  message and the clock are, for every timeout the socket accepts.
\<close>

theorem classic_roundtrip:
  assumes fd: "\<not> is_fd msg" and ext: "\<not> is_extended_id msg"
    and id: "0 \<le> arbitration_id msg" "arbitration_id msg < 2 ^ 28"
    and len: "int (length (data msg)) = dlc msg" "dlc msg \<le> 8"
    and tm: "\<forall>t. timeout = Some t \<longrightarrow> 0 \<le> t"
  shows "recv_internal message now timeout (bus_receiving [send_frame msg]) =
           (Return (Some (message\<lparr>timestamp := now,
                                  arbitration_id := arbitration_id msg,
                                  is_extended_id := False,
                                  is_remote_frame := is_remote_frame msg,
                                  dlc := dlc msg,
                                  data := data msg\<rparr>), False),
            bus_receiving [])"
proof -
  let ?H = "send_header msg"
  have l8: "length (data msg) \<le> 8"
    using len by linarith
  have pl: "length (send_payload msg) = 8"
    using fd l8 by (simp add: send_payload_def FETCH_SIZE_STANDARD_FRAME_def)
  have r1: "read sizeof_MessageHeader timeout \<lparr>socket_of = [send_frame msg], buffer = []\<rparr>
      = (Return (header_bytes ?H), \<lparr>socket_of = [], buffer = send_payload msg\<rparr>)"
    by (simp add: read_def Let_def send_frame_def length_header_bytes sizeof_MessageHeader_def pl
        settimeout_accepted [OF tm])
  have r2: "read 8 timeout \<lparr>socket_of = [], buffer = send_payload msg\<rparr>
      = (Return (send_payload msg), \<lparr>socket_of = [], buffer = []\<rparr>)"
    by (simp add: read_def pl)
  have m: "match_frame_kind ?H message
      = Inr (message\<lparr>is_remote_frame := is_remote_frame msg\<rparr>, 8)"
    using classic_header [OF fd ext]
    by (simp add: match_frame_kind_def FETCH_SIZE_STANDARD_FRAME_def)
  have c: "\<not> fetch_crc ?H"
    using classic_header(1) [OF fd ext] by (simp add: fetch_crc_def)
  have fid: "frame_id ?H = arbitration_id msg"
    using classic_header(4) [OF fd ext] frame_id_of_int(1,2) [OF id]
    by (simp add: frame_id_def)
  have fext: "\<not> frame_extended_id ?H"
    using classic_header(4) [OF fd ext] frame_id_of_int(3,4) [OF id]
    by (simp add: frame_extended_id_def)
  have d0: "0 \<le> dlc msg"
    using len(1) by linarith
  have fs: "uint (frame_size ?H) = dlc msg"
    using classic_header(2) [OF fd ext] d0 len(2)
    by (simp add: uint_word_of_int take_bit_int_eq_self)
  then have fsn: "unat (frame_size ?H) = length (data msg)"
    using len(1) by (simp add: unat_eq_nat_uint)
  have dt: "take (unat (frame_size ?H)) (send_payload msg) = data msg"
    using fd by (simp add: fsn send_payload_def)
  show ?thesis
    by (simp add: recv_internal_def bus_receiving_def r1 from_buffer_copy_header_bytes m r2 c
        fill_message_def fid fext fs dt)
qed

lemma classic_roundtrip_scenario_A:
  "recv_internal Message_new 7 (Some 1) (bus_receiving [send_frame scenario_A]) =
     (Return (Some (scenario_A\<lparr>timestamp := 7\<rparr>), False), bus_receiving [])"
proof -
  have "\<not> is_fd scenario_A" "\<not> is_extended_id scenario_A"
    "0 \<le> arbitration_id scenario_A" "arbitration_id scenario_A < 2 ^ 28"
    "int (length (data scenario_A)) = dlc scenario_A" "dlc scenario_A \<le> 8"
    "\<forall>t. Some (1::real) = Some t \<longrightarrow> 0 \<le> t"
    by (simp_all add: scenario_A_def Message_new_def)
  from classic_roundtrip [OF this, of Message_new 7] show ?thesis
    by (simp add: scenario_A_def Message_new_def)
qed

subsection \<open>Timeouts in the decode path\<close>

text \<open>
  Claim C4: a timeout on any of the three reads should give the result \<^verbatim>\<open>(None, False)\<close>
  and never an exception. Only the header read is inside the \<^verbatim>\<open>try\<close>: a timeout there
  gives \<^verbatim>\<open>(None, False)\<close>, while a timeout of the payload read (a datagram that ends after
  the header) or of the trailer read (a \<^verbatim>\<open>CAN_FD_FRAME_CRC\<close> datagram without trailer)
  leaves \<^verbatim>\<open>_recv_internal\<close> as \<^verbatim>\<open>TimeoutError\<close>.
\<close>

theorem payload_and_crc_timeouts_propagate:
  "fst (recv_internal Message_new 7 (Some 1) (bus_receiving [header_only_datagram]))
     = Raise TimeoutError
   \<and> fst (recv_internal Message_new 7 (Some 1) (bus_receiving [crc_missing_datagram]))
     = Raise TimeoutError
   \<and> fst (recv_internal Message_new 7 (Some 1) (bus_receiving []))
     = Return (None, False)"
  by code_simp

subsection \<open>The flags the encoder sets\<close>

text \<open>
  Claim C8: for a frame with the bitrate switch and without the extended, error and remote
  flags the encoder should set flag bit 5 (\<open>0x20\<close>) and nothing else, bit 4 in particular
  staying clear. \<open>FLAG_BITRATE_SWITCH\<close> is \<open>0x30\<close>: for every such frame the flags are
  \<open>0x30\<close>, bits 4 and 5 both set.
\<close>

theorem bitrate_switch_sets_two_bits:
  "frame_flags (send_header (msg\<lparr>bitrate_switch := True, is_extended_id := False,
                                 is_error_frame := False, is_remote_frame := False\<rparr>)) = 0x30
   \<and> frame_flags (send_header brs_frame) = 0x30
   \<and> bit (frame_flags (send_header brs_frame)) 4
   \<and> bit (frame_flags (send_header brs_frame)) 5"
proof (intro conjI)
  show "frame_flags (send_header (msg\<lparr>bitrate_switch := True, is_extended_id := False,
                                 is_error_frame := False, is_remote_frame := False\<rparr>)) = 0x30"
    by (simp add: send_header_def Let_def FLAG_BITRATE_SWITCH_def)
  show "frame_flags (send_header brs_frame) = 0x30"
    by code_simp
  show "bit (frame_flags (send_header brs_frame)) 4"
    by code_simp
  show "bit (frame_flags (send_header brs_frame)) 5"
    by code_simp
qed

text \<open>
  Claim C10: for a frame with \<open>is_fd\<close> the encoder ignores \<open>is_remote_frame\<close>. The datagram
  is the same whether the flag is set or not, flag bit 0 is clear, and for an identifier of
  at most 29 bits bit 30 of \<open>frame_id_raw\<close> is clear: the remote request is dropped.
\<close>

theorem fd_send_ignores_remote_frame:
  assumes "is_fd msg" and "0 \<le> arbitration_id msg" and "arbitration_id msg < 2 ^ 29"
  shows "send_frame (msg\<lparr>is_remote_frame := True\<rparr>) = send_frame (msg\<lparr>is_remote_frame := False\<rparr>)
       \<and> \<not> bit (frame_flags (send_header msg)) 0
       \<and> \<not> bit (frame_id_raw (send_header msg)) 30"
proof (intro conjI)
  show "send_frame (msg\<lparr>is_remote_frame := True\<rparr>) = send_frame (msg\<lparr>is_remote_frame := False\<rparr>)"
    using assms(1) by (simp add: send_frame_def send_header_def send_payload_def Let_def)
  show "\<not> bit (frame_flags (send_header msg)) 0"
    using assms(1)
    by (simp add: send_header_def Let_def FLAG_EXTENDED_IDENTIFIER_def FLAG_ERROR_STATE_def
        FLAG_BITRATE_SWITCH_def bit_or_iff)
  have "arbitration_id msg div 2 ^ 30 = 0"
    using assms(2,3) by simp
  then have "\<not> bit (arbitration_id msg) 30"
    by (simp add: bit_iff_odd)
  then show "\<not> bit (frame_id_raw (send_header msg)) 30"
    using assms(1) by (simp add: send_header_def Let_def bit_word_of_int_iff)
qed

theorem fd_send_ignores_remote_frame_witness:
  "send_frame (brs_frame\<lparr>is_remote_frame := True\<rparr>) = send_frame (brs_frame\<lparr>is_remote_frame := False\<rparr>)
   \<and> \<not> bit (frame_flags (send_header (brs_frame\<lparr>is_remote_frame := True\<rparr>))) 0
   \<and> \<not> bit (frame_id_raw (send_header (brs_frame\<lparr>is_remote_frame := True\<rparr>))) 30"
proof -
  have "is_fd (brs_frame\<lparr>is_remote_frame := True\<rparr>)"
    and "0 \<le> arbitration_id (brs_frame\<lparr>is_remote_frame := True\<rparr>)"
    and "arbitration_id (brs_frame\<lparr>is_remote_frame := True\<rparr>) < 2 ^ 29"
    by (simp_all add: brs_frame_def Message_new_def)
  from fd_send_ignores_remote_frame [OF this] show ?thesis
    by simp
qed

subsection \<open>The classic payload on the wire\<close>

theorem packet_size_counterexample:
  "packet_size (send_header scenario_A) = 36 \<and> packet_size (send_header scenario_A) \<noteq> 32"
  by code_simp

text \<open>
  Claim C7, amended (scenario A and padding). The header structure has 28 bytes, so the
  classic \<open>packet_size\<close> is 36, not 32. Encoding the classic frame with identifier \<open>0x45\<close>
  and the five data bytes \<open>00 01 11 01 22\<close> gives a header with \<open>frame_kind = 0x80\<close>,
  \<open>frame_size = 5\<close>, \<open>frame_id_raw = 0x45\<close> and \<open>packet_size = 36\<close>, followed by the payload
  \<open>00 01 11 01 22 00 00 00\<close>. In general a classic frame whose data has at most eight bytes
  and no more than \<open>dlc\<close> bytes is sent as a 36-byte datagram with \<open>packet_size = 36\<close> and an
  8-byte payload that starts with the data and is zero from position \<open>dlc\<close> on.
\<close>

theorem send_classic_frame:
  "send_header scenario_A =
      \<lparr>packet_size = 36, frame_kind = 0x80, unused_tag = 0, timestamp_low = 0,
       timestamp_high = 0, channel = 0, frame_size = 5, frame_flags = 0, frame_id_raw = 0x45\<rparr>
   \<and> send_payload scenario_A = [0x00, 0x01, 0x11, 0x01, 0x22, 0x00, 0x00, 0x00]
   \<and> (\<not> is_fd msg \<and> length (data msg) \<le> 8 \<and> int (length (data msg)) \<le> dlc msg \<longrightarrow>
        packet_size (send_header msg) = 36
        \<and> frame_kind (send_header msg) = 0x80
        \<and> length (send_frame msg) = 36
        \<and> length (send_payload msg) = 8
        \<and> take (length (data msg)) (send_payload msg) = data msg
        \<and> (\<forall>i < 8. dlc msg \<le> int i \<longrightarrow> send_payload msg ! i = 0))"
proof (intro conjI impI)
  show "send_header scenario_A =
      \<lparr>packet_size = 36, frame_kind = 0x80, unused_tag = 0, timestamp_low = 0,
       timestamp_high = 0, channel = 0, frame_size = 5, frame_flags = 0, frame_id_raw = 0x45\<rparr>"
    by code_simp
  show "send_payload scenario_A = [0x00, 0x01, 0x11, 0x01, 0x22, 0x00, 0x00, 0x00]"
    by code_simp
next
  assume a: "\<not> is_fd msg \<and> length (data msg) \<le> 8 \<and> int (length (data msg)) \<le> dlc msg"
  then show "packet_size (send_header msg) = 36"
    by (simp add: send_header_def Let_def sizeof_MessageHeader_def FETCH_SIZE_STANDARD_FRAME_def)
  from a show "frame_kind (send_header msg) = 0x80"
    by (simp add: send_header_def Let_def)
  from a show len: "length (send_payload msg) = 8"
    by (simp add: send_payload_def FETCH_SIZE_STANDARD_FRAME_def)
  then show "length (send_frame msg) = 36"
    by (simp add: send_frame_def length_header_bytes sizeof_MessageHeader_def)
  from a show "take (length (data msg)) (send_payload msg) = data msg"
    by (simp add: send_payload_def)
  from a show "\<forall>i < 8. dlc msg \<le> int i \<longrightarrow> send_payload msg ! i = 0"
    by (auto simp: send_payload_def FETCH_SIZE_STANDARD_FRAME_def nth_append)
qed

theorem send_classic_frame_witness:
  "packet_size (send_header extended_frame) = 36
   \<and> length (send_frame extended_frame) = 36
   \<and> length (send_payload extended_frame) = 8
   \<and> take 2 (send_payload extended_frame) = [0xDE, 0xAD]
   \<and> send_payload extended_frame ! 2 = 0
   \<and> send_payload extended_frame ! 7 = 0"
proof -
  have a: "\<not> is_fd extended_frame \<and> length (data extended_frame) \<le> 8
           \<and> int (length (data extended_frame)) \<le> dlc extended_frame"
    by (simp add: extended_frame_def Message_new_def)
  have d: "data extended_frame = [0xDE, 0xAD]" "dlc extended_frame = 2"
    by (simp_all add: extended_frame_def Message_new_def)
  from send_classic_frame [of extended_frame] a
  have *: "packet_size (send_header extended_frame) = 36
        \<and> frame_kind (send_header extended_frame) = 0x80
        \<and> length (send_frame extended_frame) = 36
        \<and> length (send_payload extended_frame) = 8
        \<and> take (length (data extended_frame)) (send_payload extended_frame) = data extended_frame
        \<and> (\<forall>i < 8. dlc extended_frame \<le> int i \<longrightarrow> send_payload extended_frame ! i = 0)"
    by blast
  then have "send_payload extended_frame ! 2 = 0" "send_payload extended_frame ! 7 = 0"
    by (simp_all add: d)
  moreover from * have "take 2 (send_payload extended_frame) = [0xDE, 0xAD]"
    by (simp add: d numeral_2_eq_2)
  ultimately show ?thesis
    using * by simp
qed

subsection \<open>The buffered reader\<close>




subsection \<open>Unknown frame kinds\<close>

text \<open>
  Claim C6: when the header that was read has a frame kind other than \<open>0x80\<close>, \<open>0x81\<close>,
  \<open>0x90\<close> and \<open>0x91\<close>, \<^verbatim>\<open>_recv_internal\<close> logs one warning naming the kind and returns
  \<^verbatim>\<open>(None, False)\<close>; nothing is raised and nothing more is read.
\<close>

theorem unknown_frame_kind_dropped:
  assumes "read sizeof_MessageHeader timeout (recv_buffer self) = (Return header_data, rb)"
    and "from_buffer_copy header_data = Return header"
    and "frame_kind header \<notin> {0x80, 0x81, 0x90, 0x91}"
  shows "recv_internal message now timeout self =
           (Return (None, False),
            self\<lparr>recv_buffer := rb,
                 logged := logged self @ [Warning_unknown_frame_type (frame_kind header)]\<rparr>)"
  using assms by (simp add: recv_internal_def match_frame_kind_def)

theorem unknown_frame_kind_dropped_witness:
  "recv_internal Message_new 7 (Some 1) (bus_receiving [unknown_kind_datagram]) =
     (Return (None, False),
      \<lparr>send_socket = [],
       recv_buffer = \<lparr>socket_of = [], buffer = [0, 0, 0, 0, 0, 0, 0, 0]\<rparr>,
       logged = [Warning_unknown_frame_type 0x00]\<rparr>)"
proof -
  have r: "read sizeof_MessageHeader (Some 1) (recv_buffer (bus_receiving [unknown_kind_datagram]))
         = (Return (header_bytes (gateway_header 0x00 0 0x45)),
            \<lparr>socket_of = [], buffer = [0, 0, 0, 0, 0, 0, 0, 0]\<rparr>)"
    by code_simp
  have h: "from_buffer_copy (header_bytes (gateway_header 0x00 0 0x45))
         = Return (gateway_header 0x00 0 0x45)"
    by code_simp
  have k: "frame_kind (gateway_header 0x00 0 0x45) \<notin> {0x80, 0x81, 0x90, 0x91}"
    by (simp add: gateway_header_def)
  show ?thesis
    using unknown_frame_kind_dropped [OF r h k, of Message_new 7]
    by (simp add: bus_receiving_def gateway_header_def)
qed

subsection \<open>Payload length and \<open>dlc\<close> after decoding\<close>

theorem dlc9_counterexample:
  "fst (recv_internal Message_new 7 (Some 1) (bus_receiving [dlc9_datagram])) =
     Return (Some (Message_new\<lparr>timestamp := 7, arbitration_id := 0x45,
                     is_extended_id := False, dlc := 9,
                     data := [1, 2, 3, 4, 5, 6, 7, 8]\<rparr>), False)"
  by code_simp

text \<open>
  Claim C9, amended. When \<^verbatim>\<open>_recv_internal\<close> returns a frame and the payload read gave the
  number of bytes asked for, \<open>dlc\<close> is the header's \<open>frame_size\<close>; the data has exactly \<open>dlc\<close>
  bytes for the two FD kinds, and \<open>min dlc 8\<close> bytes for the two classic kinds, which is
  \<open>dlc\<close> exactly when \<open>frame_size\<close> is at most 8.
\<close>

theorem recv_internal_data_length:
  assumes "read sizeof_MessageHeader timeout (recv_buffer self) = (Return header_data, rb1)"
    and "from_buffer_copy header_data = Return header"
    and "match_frame_kind header message = Inr (message', fetch_size)"
    and "read fetch_size timeout rb1 = (Return payload_data, rb2)"
    and "length payload_data = fetch_size"
    and "recv_internal message now timeout self = (Return (Some msg, flt), self')"
  shows "dlc msg = uint (frame_size header)
       \<and> int (length (data msg)) =
           (if frame_kind header = MessageType_value CAN_FD_FRAME
               \<or> frame_kind header = MessageType_value CAN_FD_FRAME_CRC
            then dlc msg else min (dlc msg) 8)"
proof -
  have msg: "msg = fill_message now header payload_data message'"
    using assms(1-4,6)
    by (auto simp: recv_internal_def split: if_splits prod.splits outcome.splits)
  have fs: "fetch_size =
      (if frame_kind header = MessageType_value CAN_FD_FRAME
          \<or> frame_kind header = MessageType_value CAN_FD_FRAME_CRC
       then unat (frame_size header) else 8)"
    using assms(3)
    by (auto simp: match_frame_kind_def FETCH_SIZE_STANDARD_FRAME_def split: if_splits)
  have len: "length (data msg) = min (unat (frame_size header)) fetch_size"
    using assms(5) by (simp add: msg fill_message_def min_def)
  have d: "dlc msg = uint (frame_size header)"
    by (simp add: msg fill_message_def)
  obtain n where n: "unat (frame_size header) = n" "uint (frame_size header) = int n"
    by simp
  show ?thesis
    unfolding d len fs n by (simp add: min_def)
qed

theorem recv_internal_data_length_witness:
  "(\<exists>msg st. recv_internal Message_new 7 (Some 1) (bus_receiving [fd_datagram])
        = (Return (Some msg, False), st) \<and> dlc msg = 3 \<and> length (data msg) = 3)
   \<and> (\<exists>msg st. recv_internal Message_new 7 (Some 1) (bus_receiving [send_frame scenario_A])
        = (Return (Some msg, False), st) \<and> dlc msg = 5 \<and> length (data msg) = 5)"
proof (intro conjI)
  let ?H = "gateway_header (MessageType_value CAN_FD_FRAME) 3 0x69"
  let ?M = "Message_new\<lparr>timestamp := 7, arbitration_id := 0x69, is_extended_id := False,
              dlc := 3, data := [1, 2, 3], is_fd := True\<rparr>"
  have r: "read sizeof_MessageHeader (Some 1) (recv_buffer (bus_receiving [fd_datagram]))
         = (Return (header_bytes ?H), \<lparr>socket_of = [], buffer = [1, 2, 3]\<rparr>)"
    by code_simp
  have h: "from_buffer_copy (header_bytes ?H) = Return ?H"
    by code_simp
  have m: "match_frame_kind ?H Message_new = Inr (Message_new\<lparr>is_fd := True\<rparr>, 3)"
    by code_simp
  have p: "read 3 (Some 1) \<lparr>socket_of = [], buffer = [1, 2, 3]\<rparr>
         = (Return [1, 2, 3], \<lparr>socket_of = [], buffer = []\<rparr>)"
    by code_simp
  have l: "length [1, 2, 3 :: byte] = 3"
    by simp
  have rr: "recv_internal Message_new 7 (Some 1) (bus_receiving [fd_datagram])
         = (Return (Some ?M, False), bus_receiving [])"
    by code_simp
  from recv_internal_data_length [OF r h m p l rr]
  have "dlc ?M = 3 \<and> int (length (data ?M)) = dlc ?M"
    by (simp add: gateway_header_def)
  with rr show "\<exists>msg st. recv_internal Message_new 7 (Some 1) (bus_receiving [fd_datagram])
        = (Return (Some msg, False), st) \<and> dlc msg = 3 \<and> length (data msg) = 3"
    by simp
next
  let ?H = "send_header scenario_A"
  let ?M = "scenario_A\<lparr>timestamp := 7\<rparr>"
  have r: "read sizeof_MessageHeader (Some 1) (recv_buffer (bus_receiving [send_frame scenario_A]))
         = (Return (header_bytes ?H),
            \<lparr>socket_of = [], buffer = [0x00, 0x01, 0x11, 0x01, 0x22, 0, 0, 0]\<rparr>)"
    by code_simp
  have h: "from_buffer_copy (header_bytes ?H) = Return ?H"
    by code_simp
  have m: "match_frame_kind ?H Message_new = Inr (Message_new, 8)"
    by code_simp
  have p: "read 8 (Some 1) \<lparr>socket_of = [], buffer = [0x00, 0x01, 0x11, 0x01, 0x22, 0, 0, 0]\<rparr>
         = (Return [0x00, 0x01, 0x11, 0x01, 0x22, 0, 0, 0], \<lparr>socket_of = [], buffer = []\<rparr>)"
    by code_simp
  have l: "length [0x00, 0x01, 0x11, 0x01, 0x22, 0, 0, 0 :: byte] = 8"
    by simp
  have rr: "recv_internal Message_new 7 (Some 1) (bus_receiving [send_frame scenario_A])
         = (Return (Some ?M, False), bus_receiving [])"
    by code_simp
  have k: "frame_kind ?H = 0x80" "frame_size ?H = 5"
    by code_simp+
  from recv_internal_data_length [OF r h m p l rr]
  have "dlc ?M = 5 \<and> int (length (data ?M)) = min (dlc ?M) 8"
    by (simp add: k)
  with rr show "\<exists>msg st. recv_internal Message_new 7 (Some 1) (bus_receiving [send_frame scenario_A])
        = (Return (Some msg, False), st) \<and> dlc msg = 5 \<and> length (data msg) = 5"
    by auto
qed

end
